theory Spec2Isabelle
  imports Complex_Main "HOL-Library.Multiset"
begin

section \<open>Composite reflectivity (pyart/retrieve/comp\_z.py)\<close>

text \<open>
  A shallow embedding of \<^verbatim>\<open>upsample\<close> and \<^verbatim>\<open>composite_reflectivity\<close>.
  The number stored in a cell, an angle or a time value is the exact value of the float
  (no NaN). Where the code rounds, the rounding is a parameter: the conversion of the
  threshold to the type of the field arrays, and the mean of the timestamps.
  Every Python exception the function can run into is a value of \<open>error\<close>.
\<close>

subsection \<open>Errors\<close>

text \<open>
  \<open>UnboundLocalError\<close>, \<open>IndexError\<close> and \<open>ValueError\<close> are the built-in exceptions
  raised by the interpreter and by NumPy in the code below. \<open>MissingFieldError\<close> is the
  failure of the radar object's \<^verbatim>\<open>get_field\<close>. \<open>EmptyVolumeError\<close> and
  \<open>ShapeMismatchError\<close> are error kinds that the specification names; the source
  defines no such classes and no branch of the embedding returns them.
\<close>

datatype error =
  UnboundLocalError | IndexError | ValueError
  | MissingFieldError | EmptyVolumeError | ShapeMismatchError

definition bindE :: "error + 'a \<Rightarrow> ('a \<Rightarrow> error + 'b) \<Rightarrow> error + 'b" where
  "bindE m f = (case m of Inl e \<Rightarrow> Inl e | Inr x \<Rightarrow> f x)"

subsection \<open>Arrays\<close>

text \<open>
  One element of a NumPy masked array: its stored number and its mask bit (\<open>True\<close> is
  invalid). A plain \<^verbatim>\<open>ndarray\<close> is the same with every mask bit \<open>False\<close>. A 2-D array
  \<^verbatim>\<open>[ray, gate]\<close> is the list of its rows; its shape is read as \<open>map length\<close>.
\<close>

datatype cell = Cell (val: real) (masked: bool)

type_synonym field = "cell list list"
type_synonym grid = "real list list"

text \<open>
  The radar object, by the attributes that the code reads; of each \<^verbatim>\<open>dict\<close> attribute
  the entry \<^verbatim>\<open>'data'\<close> (and \<^verbatim>\<open>'units'\<close> of the time). The field arrays have one
  floating-point type, \<^verbatim>\<open>float32\<close> in the files pyart reads: \<open>field_dtype radar x\<close> is
  the value that the Python float \<open>x\<close> takes when NumPy converts it to that type.
\<close>

record radar =
  sweep_number :: "nat list"
  sweep_start_ray_index :: "nat list"
  sweep_end_ray_index :: "nat list"
  radar_fields :: "nat \<Rightarrow> string \<Rightarrow> field option"
  field_dtype :: "real \<Rightarrow> real"
  gate_longitude :: grid
  gate_latitude :: grid
  azimuth :: "real list"
  time :: "real list"
  time_units :: string

text \<open>
  Modelled from the spec: \<^verbatim>\<open>Radar.get_field\<close> (pyart/core/radar.py) is not among the
  sources. The specification gives its interface,
  \<^verbatim>\<open>get_field(sweep_index, field_name) -> 2D array[ray, gate]\<close> with per-cell invalidity
  marking, each sweep having its own 2-D fields, and \<open>MissingFieldError\<close> when a
  required field is absent for a sweep.
\<close>

definition get_field :: "radar \<Rightarrow> nat \<Rightarrow> string \<Rightarrow> error + field" where
  "get_field radar sweep field_name =
     (case radar_fields radar sweep field_name of
        None \<Rightarrow> Inl MissingFieldError
      | Some d \<Rightarrow> Inr d)"

text \<open>\<^verbatim>\<open>xs[i]\<close> for an index \<open>i \<ge> 0\<close>.\<close>

definition getitem :: "'a list \<Rightarrow> nat \<Rightarrow> error + 'a" where
  "getitem xs i = (if i < length xs then Inr (xs ! i) else Inl IndexError)"

text \<open>\<^verbatim>\<open>xs[s:e]\<close> for bounds \<open>s, e \<ge> 0\<close>: a slice is clipped, it never raises.\<close>

definition slice :: "'a list \<Rightarrow> nat \<Rightarrow> nat \<Rightarrow> 'a list" where
  "slice xs s e = take (e - s) (drop s xs)"

text \<open>
  \<^verbatim>\<open>rho_hv < rhv_value\<close> on a masked array: a boolean array that carries the mask of
  \<^verbatim>\<open>rho_hv\<close> (first component the comparison, second the mask bit). NumPy compares in
  the type of the array: the Python float is converted to it first (\<open>dtype x\<close>), and the
  comparison of the two floats is then exact.
\<close>

definition less_scalar :: "(real \<Rightarrow> real) \<Rightarrow> field \<Rightarrow> real \<Rightarrow> (bool \<times> bool) list list" where
  "less_scalar dtype a x = map (map (\<lambda>c. (val c < dtype x, masked c))) a"

text \<open>\<^verbatim>\<open>np.ma.make_mask(m, shrink=False)\<close>: masked entries of \<open>m\<close> are filled with \<open>True\<close>.\<close>

definition make_mask :: "(bool \<times> bool) list list \<Rightarrow> bool list list" where
  "make_mask m = map (map (\<lambda>(b, msk). if msk then True else b)) m"

text \<open>
  \<^verbatim>\<open>np.ma.masked_where(condition, a)\<close>: a copy of \<open>a\<close> masked where the condition holds;
  masked values of \<open>a\<close> or of the condition are masked in the output too. The two shapes
  must agree, else \<open>IndexError\<close>.
\<close>

definition masked_where :: "(bool \<times> bool) list list \<Rightarrow> field \<Rightarrow> error + field" where
  "masked_where condition a =
     (let cond = make_mask condition in
      if map length cond \<noteq> map length a then Inl IndexError
      else Inr (map2 (map2 (\<lambda>c x. Cell (val x) (c \<or> masked x))) cond a))"

text \<open>\<^verbatim>\<open>a[ids]\<close> with an integer index array: the rows of \<open>a\<close> in the order of \<open>ids\<close>.\<close>

definition take_rows :: "'a list \<Rightarrow> nat list \<Rightarrow> error + 'a list" where
  "take_rows a ids =
     (if list_all (\<lambda>i. i < length a) ids then Inr (map (nth a) ids) else Inl IndexError)"

text \<open>
  \<^verbatim>\<open>np.kron(a, b)\<close> of a masked 2-D array with a plain 2-D array: block \<open>(i, j)\<close> of the
  result is \<open>a[i, j] * b\<close>. The product is taken with \<^verbatim>\<open>multiply\<close>, which keeps the mask
  of \<open>a\<close> (NumPy 1.23 and later).
\<close>

definition kron :: "field \<Rightarrow> real list list \<Rightarrow> field" where
  "kron a b =
     concat (map (\<lambda>arow.
       map (\<lambda>brow. concat (map (\<lambda>x. map (\<lambda>y. Cell (val x * y) (masked x)) brow) arow)) b) a)"

definition ones :: "nat \<Rightarrow> nat \<Rightarrow> real list list" where
  "ones n m = replicate n (replicate m 1)"

definition upsample :: "field \<Rightarrow> field" where
  "upsample x = (let x_new = kron x (ones 2 1) in x_new)"

text \<open>
  \<^verbatim>\<open>g[-1,:] = g[0,:]\<close>: row 0 is read first, which raises \<open>IndexError\<close> on an array
  without rows.
\<close>

definition set_last_row_to_first :: "grid \<Rightarrow> error + grid" where
  "set_last_row_to_first g =
     (if g = [] then Inl IndexError else Inr (g[length g - 1 := g ! 0]))"

text \<open>
  \<^verbatim>\<open>np.concatenate([z_stack, z[np.newaxis,:,:]])\<close>. All dimensions but the first must
  match, else \<open>ValueError\<close>. On masked arrays \<^verbatim>\<open>np.concatenate\<close> (unlike
  \<^verbatim>\<open>np.ma.concatenate\<close>) returns a masked array in which the input masks are not
  preserved: the result holds the stored numbers of its inputs and no mask.
\<close>

definition unmask :: "cell \<Rightarrow> cell" where
  "unmask c = Cell (val c) False"

definition np_concatenate :: "field list \<Rightarrow> field \<Rightarrow> error + field list" where
  "np_concatenate z_stack z =
     (if list_all (\<lambda>l. map length l = map length z) z_stack
      then Inr (map (map (map unmask)) (z_stack @ [z]))
      else Inl ValueError)"

text \<open>
  \<^verbatim>\<open>MaskedArray.max(axis=0)\<close>: along the first axis, the largest number among the
  cells that are not masked; the result cell is masked when every cell of the column is,
  and then holds the fill value (the default of floating-point arrays, \<open>1e20\<close>).
\<close>

definition fill_value :: real where
  "fill_value = 10 ^ 20"

definition max_cells :: "cell list \<Rightarrow> cell" where
  "max_cells col =
     (let vs = map val (filter (\<lambda>c. \<not> masked c) col) in
      if vs = [] then Cell fill_value True else Cell (fold max (tl vs) (hd vs)) False)"

definition max_axis0 :: "field list \<Rightarrow> field" where
  "max_axis0 zs =
     (case zs of
        [] \<Rightarrow> []
      | z0 # _ \<Rightarrow>
          map (\<lambda>i. map (\<lambda>j. max_cells (map (\<lambda>z. z ! i ! j) zs)) [0..<length (z0 ! i)])
            [0..<length z0])"

subsection \<open>The loop over the sweeps\<close>

text \<open>
  The variables that live across iterations; \<open>None\<close> is a name not bound yet.
\<close>

record loop_state =
  z_stack :: "field list option"
  lon_0 :: "grid option"
  lat_0 :: "grid option"

text \<open>
  Lines 61 to 67: the sweep's reflectivity, masked by the correlation coefficient when
  \<open>rhv_filter\<close> is set.
\<close>

definition filter_sweep :: "radar \<Rightarrow> bool \<Rightarrow> real \<Rightarrow> nat \<Rightarrow> error + field" where
  "filter_sweep radar rhv_filter rhv_value sweep =
     bindE (get_field radar sweep ''reflectivity'') (\<lambda>z.
     if rhv_filter
     then bindE (get_field radar sweep ''cross_correlation_ratio'') (\<lambda>rho_hv.
            masked_where (less_scalar (field_dtype radar) rho_hv rhv_value) z)
     else Inr z)"

text \<open>
  Lines 57 to 81: the sweep's reflectivity and its longitudes and latitudes, all three
  reordered by \<open>az_ids\<close>. \<^verbatim>\<open>np.argsort\<close> is a parameter: the code calls it with the
  default \<^verbatim>\<open>kind\<close> (quicksort), whose order among equal keys NumPy leaves open.
\<close>

definition reorder_sweep ::
  "(real list \<Rightarrow> nat list) \<Rightarrow> radar \<Rightarrow> bool \<Rightarrow> real \<Rightarrow> nat \<Rightarrow> error + (field \<times> grid \<times> grid)" where
  "reorder_sweep argsort radar rhv_filter rhv_value sweep =
     bindE (getitem (sweep_start_ray_index radar) sweep) (\<lambda>s_idx.
     bindE (getitem (sweep_end_ray_index radar) sweep) (\<lambda>e.
     let e_idx = e + 1 in
     bindE (filter_sweep radar rhv_filter rhv_value sweep) (\<lambda>z.
     let lon = slice (gate_longitude radar) s_idx e_idx;
         lat = slice (gate_latitude radar) s_idx e_idx;
         az = slice (azimuth radar) s_idx e_idx;
         az_ids = argsort az in
     bindE (take_rows z az_ids) (\<lambda>z.
     bindE (take_rows lon az_ids) (\<lambda>lon.
     bindE (take_rows lat az_ids) (\<lambda>lat.
     Inr (z, lon, lat)))))))"

text \<open>Lines 90 to 92.\<close>

definition normalize_rays :: "grid \<Rightarrow> field \<Rightarrow> field" where
  "normalize_rays lon z = (if length lon < 720 then upsample z else z)"

text \<open>One iteration, lines 55 to 98.\<close>

definition sweep_body ::
  "(real list \<Rightarrow> nat list) \<Rightarrow> radar \<Rightarrow> bool \<Rightarrow> real \<Rightarrow> loop_state \<Rightarrow> nat \<Rightarrow> error + loop_state" where
  "sweep_body argsort radar rhv_filter rhv_value st sweep =
     bindE (reorder_sweep argsort radar rhv_filter rhv_value sweep) (\<lambda>(z, lon, lat).
     bindE (if sweep = 0
            then bindE (set_last_row_to_first lon) (\<lambda>lon0.
                 bindE (set_last_row_to_first lat) (\<lambda>lat0.
                 Inr (st\<lparr>lon_0 := Some lon0, lat_0 := Some lat0\<rparr>)))
            else Inr st) (\<lambda>st.
     let z = normalize_rays lon z in
     if sweep = 0 then Inr (st\<lparr>z_stack := Some [z]\<rparr>)
     else (case z_stack st of
             None \<Rightarrow> Inl UnboundLocalError
           | Some zs \<Rightarrow> bindE (np_concatenate zs z) (\<lambda>zs'. Inr (st\<lparr>z_stack := Some zs'\<rparr>)))))"

fun sweep_loop ::
  "(real list \<Rightarrow> nat list) \<Rightarrow> radar \<Rightarrow> bool \<Rightarrow> real \<Rightarrow> nat list \<Rightarrow> loop_state \<Rightarrow> error + loop_state" where
  "sweep_loop argsort radar rhv_filter rhv_value [] st = Inr st"
| "sweep_loop argsort radar rhv_filter rhv_value (sweep # sweeps) st =
     bindE (sweep_body argsort radar rhv_filter rhv_value st sweep)
       (sweep_loop argsort radar rhv_filter rhv_value sweeps)"

subsection \<open>The returned dictionary\<close>

record 'a entry =
  data :: 'a
  units :: string
  info :: string

record comp_dict =
  comp_longitude :: "grid entry"
  comp_latitude :: "grid entry"
  comp_composite_reflectivity :: "field entry"
  comp_time :: "real option entry"

text \<open>
  \<open>num2date\<close> stands for the decoding
  \<^verbatim>\<open>to_datetime(num2date(t, units).astype(str))\<close> of one time value, which belongs to
  netCDF4 and pandas, and \<open>dt_mean\<close> for \<^verbatim>\<open>DatetimeIndex.mean()\<close>, which pandas computes
  in 64-bit arithmetic and returns as a timestamp of finite resolution (\<open>None\<close> is
  \<^verbatim>\<open>NaT\<close>). Both are parameters. \<open>verbose\<close> is accepted and never read.
\<close>

definition composite_reflectivity ::
  "(real list \<Rightarrow> nat list) \<Rightarrow> (string \<Rightarrow> real \<Rightarrow> real) \<Rightarrow> (real list \<Rightarrow> real option) \<Rightarrow>
     radar \<Rightarrow> bool \<Rightarrow> real \<Rightarrow> bool \<Rightarrow> error + comp_dict" where
  "composite_reflectivity argsort num2date dt_mean radar rhv_filter rhv_value verbose =
     bindE (sweep_loop argsort radar rhv_filter rhv_value (sweep_number radar)
              \<lparr>z_stack = None, lon_0 = None, lat_0 = None\<rparr>) (\<lambda>st.
     case z_stack st of
       None \<Rightarrow> Inl UnboundLocalError
     | Some zs \<Rightarrow>
         let compz = max_axis0 zs;
             dtime = dt_mean (map (num2date (time_units radar)) (time radar)) in
         (case lon_0 st of
            None \<Rightarrow> Inl UnboundLocalError
          | Some lon0 \<Rightarrow>
              (case lat_0 st of
                 None \<Rightarrow> Inl UnboundLocalError
               | Some lat0 \<Rightarrow>
                   Inr \<lparr>comp_longitude =
                          \<lparr>data = lon0, units = ''degrees'',
                           info = ''reordered longitude grid, [az,range]''\<rparr>,
                        comp_latitude =
                          \<lparr>data = lat0, units = ''degrees'',
                           info = ''reordered latitude grid, [az,range]''\<rparr>,
                        comp_composite_reflectivity =
                          \<lparr>data = compz, units = ''dBZ'',
                           info = ''composite refelctivity computed from calculating the max radar value in each radar gate vertically after reordering''\<rparr>,
                        comp_time =
                          \<lparr>data = dtime, units = ''timestamp'',
                           info = ''mean time of all scans''\<rparr>\<rparr>)))"

text \<open>The defaults of the signature: \<^verbatim>\<open>rhv_filter=True, rhv_value=0.95, verbose=False\<close>.\<close>

definition composite_reflectivity_default ::
  "(real list \<Rightarrow> nat list) \<Rightarrow> (string \<Rightarrow> real \<Rightarrow> real) \<Rightarrow> (real list \<Rightarrow> real option) \<Rightarrow>
     radar \<Rightarrow> error + comp_dict" where
  "composite_reflectivity_default argsort num2date dt_mean radar =
     composite_reflectivity argsort num2date dt_mean radar True (95 / 100) False"

subsection \<open>The invariant of the loop\<close>

text \<open>
  Once \<^verbatim>\<open>z_stack\<close> is bound, sweep 0 has been reordered without error, the grids kept
  for the result are its grids with the last row overwritten, every layer of the stack
  has the shape of the normalized field of sweep 0, and the first layer holds the numbers
  of that field.
\<close>

definition stack_inv ::
  "(real list \<Rightarrow> nat list) \<Rightarrow> radar \<Rightarrow> bool \<Rightarrow> real \<Rightarrow> loop_state \<Rightarrow> bool" where
  "stack_inv argsort radar rhv_filter rhv_value st =
     (case z_stack st of
        None \<Rightarrow> True
      | Some zs \<Rightarrow>
          (case reorder_sweep argsort radar rhv_filter rhv_value 0 of
             Inl e \<Rightarrow> False
           | Inr (z, lon, lat) \<Rightarrow>
               lon \<noteq> [] \<and> lat \<noteq> [] \<and> zs \<noteq> [] \<and>
               list_all (\<lambda>l. map length l = map length (normalize_rays lon z)) zs \<and>
               map (map val) (hd zs) = map (map val) (normalize_rays lon z) \<and>
               lon_0 st = Some (lon[length lon - 1 := lon ! 0]) \<and>
               lat_0 st = Some (lat[length lat - 1 := lat ! 0])))"

text \<open>
  The layer that one sweep contributes to the stack: its filtered, reordered and
  normalized reflectivity.
\<close>

definition sweep_layer ::
  "(real list \<Rightarrow> nat list) \<Rightarrow> radar \<Rightarrow> bool \<Rightarrow> real \<Rightarrow> nat \<Rightarrow> error + field" where
  "sweep_layer argsort radar rhv_filter rhv_value sweep =
     bindE (reorder_sweep argsort radar rhv_filter rhv_value sweep) (\<lambda>(z, lon, lat).
       Inr (normalize_rays lon z))"

text \<open>The number of rows that a sweep of \<open>n\<close> rays has after lines 90 to 92.\<close>

definition normalized_count :: "nat \<Rightarrow> nat" where
  "normalized_count n = (if n < 720 then 2 * n else n)"

text \<open>
  The sweeps whose layers the stack holds once the loop has run over a list of sweep
  numbers, \<open>cur\<close> being the sweeps stacked before: sweep 0 starts the stack afresh
  (line 96), every other sweep is appended (line 98).
\<close>

fun stacked_sweeps :: "nat list \<Rightarrow> nat list \<Rightarrow> nat list" where
  "stacked_sweeps cur [] = cur"
| "stacked_sweeps cur (sweep # sweeps) =
     stacked_sweeps (if sweep = 0 then [0] else cur @ [sweep]) sweeps"

text \<open>
  The stack made of the layers \<open>ls\<close>: one layer alone is a deep copy and keeps its
  mask, two layers or more have gone through \<^verbatim>\<open>np.concatenate\<close>.
\<close>

definition stack_of_layers :: "field list \<Rightarrow> field list" where
  "stack_of_layers ls = (if length ls \<le> 1 then ls else map (map (map unmask)) ls)"

subsection \<open>Sorting permutations\<close>


text \<open>
  The sorting permutation of the stable insertion sort. On distinct keys it is the only
  sorting permutation, so it is what \<^verbatim>\<open>np.argsort\<close> returns there.
\<close>

definition argsort_stable :: "real list \<Rightarrow> nat list" where
  "argsort_stable az = map snd (sort_key fst (zip az [0..<length az]))"

subsection \<open>Sample volumes\<close>

text \<open>Time values that already count seconds from the reference date.\<close>

definition num2date_seconds :: "string \<Rightarrow> real \<Rightarrow> real" where
  "num2date_seconds u t = t"

text \<open>
  The mean of timestamps whose mean is a whole number of seconds, as it is for the time
  arrays of the sample volumes: there \<^verbatim>\<open>DatetimeIndex.mean()\<close> is exact.
\<close>

definition mean_seconds :: "real list \<Rightarrow> real option" where
  "mean_seconds ts = (if ts = [] then None else Some (sum_list ts / real (length ts)))"

text \<open>
  The conversion to \<^verbatim>\<open>float32\<close> of a number between 1/2 and 1, where a
  \<^verbatim>\<open>float32\<close> is a multiple of \<open>2 ^ - 24\<close>: the nearest one. It serves the sample
  volumes, which are compared with the threshold 0.95 only;
  \<open>float32_unit (95 / 100) = 15938355 / 16777216\<close>.
\<close>

definition float32_unit :: "real \<Rightarrow> real" where
  "float32_unit x = of_int \<lfloor>x * 2 ^ 24 + 1 / 2\<rfloor> / 2 ^ 24"

text \<open>No sweep at all.\<close>

definition volume0 :: radar where
  "volume0 =
     \<lparr>sweep_number = [], sweep_start_ray_index = [], sweep_end_ray_index = [],
      radar_fields = (\<lambda>s n. None), field_dtype = float32_unit,
      gate_longitude = [], gate_latitude = [], azimuth = [], time = [],
      time_units = ''seconds since 2020-01-01T00:00:00Z''\<rparr>"

text \<open>One sweep of two rays and one gate, stored with the larger azimuth first.\<close>

definition volume1 :: radar where
  "volume1 =
     \<lparr>sweep_number = [0], sweep_start_ray_index = [0], sweep_end_ray_index = [1],
      radar_fields = (\<lambda>s n.
        if s = 0 \<and> n = ''reflectivity'' then Some [[Cell 1 False], [Cell 2 False]]
        else if s = 0 \<and> n = ''cross_correlation_ratio''
        then Some [[Cell (99 / 100) False], [Cell (1 / 2) False]]
        else None),
      field_dtype = float32_unit,
      gate_longitude = [[1], [2]], gate_latitude = [[3], [4]],
      azimuth = [90, 10], time = [0, 10],
      time_units = ''seconds since 2020-01-01T00:00:00Z''\<rparr>"

text \<open>
  Two sweeps of one ray and one gate. The cell of sweep 0 (50 dBZ) has correlation 0.5,
  the cell of sweep 1 (10 dBZ) has correlation 0.99.
\<close>

definition volume2 :: radar where
  "volume2 =
     \<lparr>sweep_number = [0, 1], sweep_start_ray_index = [0, 1], sweep_end_ray_index = [0, 1],
      radar_fields = (\<lambda>s n.
        if n = ''reflectivity''
        then (if s = 0 then Some [[Cell 50 False]]
              else if s = 1 then Some [[Cell 10 False]] else None)
        else if n = ''cross_correlation_ratio''
        then (if s = 0 then Some [[Cell (1 / 2) False]]
              else if s = 1 then Some [[Cell (99 / 100) False]] else None)
        else None),
      field_dtype = float32_unit,
      gate_longitude = [[1], [2]], gate_latitude = [[3], [4]],
      azimuth = [90, 10], time = [0, 10],
      time_units = ''seconds since 2020-01-01T00:00:00Z''\<rparr>"

text \<open>
  One sweep of one ray and one gate whose correlation coefficient is itself masked; the
  number stored under the mask is 0.99.
\<close>

definition volume3 :: radar where
  "volume3 =
     \<lparr>sweep_number = [0], sweep_start_ray_index = [0], sweep_end_ray_index = [0],
      radar_fields = (\<lambda>s n.
        if s = 0 \<and> n = ''reflectivity'' then Some [[Cell 30 False]]
        else if s = 0 \<and> n = ''cross_correlation_ratio'' then Some [[Cell (99 / 100) True]]
        else None),
      field_dtype = float32_unit,
      gate_longitude = [[1]], gate_latitude = [[2]],
      azimuth = [0], time = [0],
      time_units = ''seconds since 2020-01-01T00:00:00Z''\<rparr>"

text \<open>
  One sweep of two rays and one gate. The correlation coefficient of ray 0 is the
  \<^verbatim>\<open>float32\<close> nearest to 0.95, which lies below 0.95; that of ray 1 is 0.5.
\<close>

definition volume5 :: radar where
  "volume5 =
     \<lparr>sweep_number = [0], sweep_start_ray_index = [0], sweep_end_ray_index = [1],
      radar_fields = (\<lambda>s n.
        if s = 0 \<and> n = ''reflectivity'' then Some [[Cell 20 False], [Cell 30 False]]
        else if s = 0 \<and> n = ''cross_correlation_ratio''
        then Some [[Cell (15938355 / 16777216) False], [Cell (1 / 2) False]]
        else None),
      field_dtype = float32_unit,
      gate_longitude = [[1], [2]], gate_latitude = [[3], [4]],
      azimuth = [0, 180], time = [0, 10],
      time_units = ''seconds since 2020-01-01T00:00:00Z''\<rparr>"

text \<open>Two sweeps that differ in their number of rays: one ray in sweep 0, two in sweep 1.\<close>

definition volume6 :: radar where
  "volume6 =
     \<lparr>sweep_number = [0, 1], sweep_start_ray_index = [0, 1], sweep_end_ray_index = [0, 2],
      radar_fields = (\<lambda>s n.
        if n = ''reflectivity''
        then (if s = 0 then Some [[Cell 50 False]]
              else if s = 1 then Some [[Cell 10 False], [Cell 20 False]] else None)
        else if n = ''cross_correlation_ratio''
        then (if s = 0 then Some [[Cell 1 False]]
              else if s = 1 then Some [[Cell 1 False], [Cell 1 False]] else None)
        else None),
      field_dtype = float32_unit,
      gate_longitude = [[1], [2], [3]], gate_latitude = [[4], [5], [6]],
      azimuth = [0, 0, 180], time = [0, 10, 20],
      time_units = ''seconds since 2020-01-01T00:00:00Z''\<rparr>"

text \<open>What the code returns for \<open>volume1\<close> with the default arguments.\<close>

definition product1 :: comp_dict where
  "product1 =
     \<lparr>comp_longitude =
        \<lparr>data = [[2], [2]], units = ''degrees'',
         info = ''reordered longitude grid, [az,range]''\<rparr>,
      comp_latitude =
        \<lparr>data = [[4], [4]], units = ''degrees'',
         info = ''reordered latitude grid, [az,range]''\<rparr>,
      comp_composite_reflectivity =
        \<lparr>data = [[Cell fill_value True], [Cell fill_value True], [Cell 1 False], [Cell 1 False]],
         units = ''dBZ'',
         info = ''composite refelctivity computed from calculating the max radar value in each radar gate vertically after reordering''\<rparr>,
      comp_time =
        \<lparr>data = Some 5, units = ''timestamp'', info = ''mean time of all scans''\<rparr>\<rparr>"

text \<open>What the code returns for \<open>volume2\<close> with the default arguments.\<close>

definition product2 :: comp_dict where
  "product2 =
     \<lparr>comp_longitude =
        \<lparr>data = [[1]], units = ''degrees'',
         info = ''reordered longitude grid, [az,range]''\<rparr>,
      comp_latitude =
        \<lparr>data = [[3]], units = ''degrees'',
         info = ''reordered latitude grid, [az,range]''\<rparr>,
      comp_composite_reflectivity =
        \<lparr>data = [[Cell 50 False], [Cell 50 False]],
         units = ''dBZ'',
         info = ''composite refelctivity computed from calculating the max radar value in each radar gate vertically after reordering''\<rparr>,
      comp_time =
        \<lparr>data = Some 5, units = ''timestamp'', info = ''mean time of all scans''\<rparr>\<rparr>"

section \<open>Properties\<close>

subsection \<open>Basic facts\<close>

lemma bindE_simps [simp]: "bindE (Inl e) f = Inl e" "bindE (Inr x) f = f x"
  by (simp_all add: bindE_def)

lemma take_rows_Inr:
  "take_rows a ids = Inr b \<longleftrightarrow> list_all (\<lambda>i. i < length a) ids \<and> b = map (nth a) ids"
  by (auto simp: take_rows_def)

lemma reorder_sweep_Inr:
  assumes "reorder_sweep argsort radar rhv_filter rhv_value sweep = Inr (z, lon, lat)"
  shows "\<exists>s_idx e zf.
           getitem (sweep_start_ray_index radar) sweep = Inr s_idx \<and>
           getitem (sweep_end_ray_index radar) sweep = Inr e \<and>
           filter_sweep radar rhv_filter rhv_value sweep = Inr zf \<and>
           take_rows zf (argsort (slice (azimuth radar) s_idx (e + 1))) = Inr z \<and>
           take_rows (slice (gate_longitude radar) s_idx (e + 1))
             (argsort (slice (azimuth radar) s_idx (e + 1))) = Inr lon \<and>
           take_rows (slice (gate_latitude radar) s_idx (e + 1))
             (argsort (slice (azimuth radar) s_idx (e + 1))) = Inr lat"
  using assms
  by (auto simp: reorder_sweep_def bindE_def Let_def split: sum.splits)

lemma reorder_sweep_lengths:
  assumes "reorder_sweep argsort radar rhv_filter rhv_value sweep = Inr (z, lon, lat)"
  shows "length lon = length z" and "length lat = length z"
  using reorder_sweep_Inr [OF assms] by (auto simp: take_rows_Inr)

lemma sweep_body_first:
  assumes "sweep_body argsort radar rhv_filter rhv_value st 0 = Inr st'"
  shows "\<exists>z lon lat.
           reorder_sweep argsort radar rhv_filter rhv_value 0 = Inr (z, lon, lat) \<and>
           lon \<noteq> [] \<and> lat \<noteq> [] \<and>
           st' = st\<lparr>lon_0 := Some (lon[length lon - 1 := lon ! 0]),
                    lat_0 := Some (lat[length lat - 1 := lat ! 0]),
                    z_stack := Some [normalize_rays lon z]\<rparr>"
  using assms
  by (auto simp: sweep_body_def bindE_def set_last_row_to_first_def Let_def
      split: sum.splits if_splits)

lemma sweep_body_later:
  assumes "sweep_body argsort radar rhv_filter rhv_value st sweep = Inr st'" and "sweep \<noteq> 0"
  shows "\<exists>z lon lat zs.
           reorder_sweep argsort radar rhv_filter rhv_value sweep = Inr (z, lon, lat) \<and>
           z_stack st = Some zs \<and>
           list_all (\<lambda>l. map length l = map length (normalize_rays lon z)) zs \<and>
           st' = st\<lparr>z_stack := Some (map (map (map unmask)) (zs @ [normalize_rays lon z]))\<rparr>"
  using assms
  by (auto simp: sweep_body_def bindE_def np_concatenate_def Let_def
      split: sum.splits if_splits option.splits)

lemma val_unmask [simp]: "val (unmask c) = val c"
  by (simp add: unmask_def)

lemma val_comp_unmask [simp]: "val \<circ> unmask = val"
  by (rule ext) simp

lemma length_comp_map [simp]: "length \<circ> map f = length"
  by (rule ext) simp

lemma unmask_idem [simp]: "unmask (unmask c) = unmask c"
  by (simp add: unmask_def)

lemma unmask_comp_idem [simp]: "unmask \<circ> unmask = unmask"
  by (rule ext) simp

subsection \<open>The sample volumes, evaluated\<close>

lemma volume1_product:
  "composite_reflectivity argsort_stable num2date_seconds mean_seconds volume1 True (95 / 100) False = Inr product1"
  by code_simp

lemma volume2_product:
  "composite_reflectivity argsort_stable num2date_seconds mean_seconds volume2 True (95 / 100) False = Inr product2"
  by code_simp

lemma volume1_reorder:
  "reorder_sweep argsort_stable volume1 True (95 / 100) 0 =
     Inr ([[Cell 2 True], [Cell 1 False]], [[2], [1]], [[4], [3]])"
  by code_simp


lemma volume6_fails:
  "composite_reflectivity argsort_stable num2date_seconds mean_seconds volume6 True (95 / 100) False =
     Inl ValueError"
  by code_simp



lemma volume5_filter:
  "filter_sweep volume5 True (95 / 100) 0 = Inr [[Cell 20 False], [Cell 30 True]]"
  by code_simp

subsection \<open>Upsampling\<close>

lemma kron_row_one: "concat (map (\<lambda>x. [Cell (val x * 1) (masked x)]) arow) = arow"
  by (induction arow) simp_all

lemma upsample_rows: "upsample x = concat (map (\<lambda>row. [row, row]) x)"
  by (simp add: upsample_def kron_def ones_def numeral_2_eq_2 kron_row_one)

lemma length_upsample: "length (upsample x) = 2 * length x"
  by (induction x) (simp_all add: upsample_rows)

lemma nth_upsample_even: "i < length x \<Longrightarrow> upsample x ! (2 * i) = x ! i"
proof (induction x arbitrary: i)
  case Nil
  then show ?case by simp
next
  case (Cons r x)
  show ?case
  proof (cases i)
    case 0
    then show ?thesis by (simp add: upsample_rows)
  next
    case (Suc k)
    with Cons.prems have k: "k < length x" by simp
    from Cons.IH [OF k] show ?thesis
      using Suc by (simp add: upsample_rows)
  qed
qed

lemma nth_upsample_odd: "i < length x \<Longrightarrow> upsample x ! Suc (2 * i) = x ! i"
proof (induction x arbitrary: i)
  case Nil
  then show ?case by simp
next
  case (Cons r x)
  show ?case
  proof (cases i)
    case 0
    then show ?thesis by (simp add: upsample_rows)
  next
    case (Suc k)
    with Cons.prems have k: "k < length x" by simp
    from Cons.IH [OF k] show ?thesis
      using Suc by (simp add: upsample_rows)
  qed
qed

text \<open>
  Claim C4. When the reordered sweep (its field \<open>z\<close> and its longitude grid, which have
  the same number of rows) has \<open>n < 720\<close> rays, the normalized field has exactly \<open>2n\<close>
  rows and rows \<open>2i\<close> and \<open>2i + 1\<close> are row \<open>i\<close> of the input, numbers and mask bits
  alike. A sweep of 720 rays passes through unchanged.
\<close>

theorem upsample_exact:
  "length lon = length z \<Longrightarrow>
     (length z < 720 \<longrightarrow>
        length (normalize_rays lon z) = 2 * length z \<and>
        (\<forall>i < length z. normalize_rays lon z ! (2 * i) = z ! i \<and> normalize_rays lon z ! (2 * i + 1) = z ! i)) \<and>
     (length z = 720 \<longrightarrow> normalize_rays lon z = z)"
  by (simp add: normalize_rays_def length_upsample nth_upsample_even nth_upsample_odd)

theorem upsample_exact_witness:
  "length [[1], [2::real]] = length [[Cell 7 False], [Cell 8 True]] \<and>
   length [[Cell 7 False], [Cell 8 True]] < (720::nat) \<and>
   length (normalize_rays [[1], [2]] [[Cell 7 False], [Cell 8 True]]) = 4 \<and>
   normalize_rays [[1], [2]] [[Cell 7 False], [Cell 8 True]] =
     [[Cell 7 False], [Cell 7 False], [Cell 8 True], [Cell 8 True]]"
  using upsample_exact [of "[[1], [2]]" "[[Cell 7 False], [Cell 8 True]]"]
  by (simp add: normalize_rays_def upsample_def kron_def ones_def numeral_2_eq_2)

subsection \<open>A volume without sweeps\<close>

text \<open>
  Claim C5, as amended. With no sweep the loop body never runs, \<^verbatim>\<open>z_stack\<close> is still
  unbound at line 101 and the call ends there with Python's \<open>UnboundLocalError\<close>;
  nothing is returned.
\<close>

theorem empty_volume_unbound:
  "sweep_number radar = [] \<Longrightarrow>
     composite_reflectivity argsort num2date dt_mean radar rhv_filter rhv_value verbose =
       Inl UnboundLocalError"
  by (simp add: composite_reflectivity_def)

theorem empty_volume_unbound_witness:
  "sweep_number volume0 = [] \<and>
   composite_reflectivity argsort_stable num2date_seconds mean_seconds volume0 True (95 / 100) False =
     Inl UnboundLocalError"
  using empty_volume_unbound [of volume0 argsort_stable num2date_seconds mean_seconds True "95 / 100" False]
  by (simp add: volume0_def)

text \<open>The error of the empty volume is not the \<open>EmptyVolumeError\<close> of claim C5.\<close>

theorem empty_volume_counterexample:
  "composite_reflectivity_default argsort_stable num2date_seconds mean_seconds volume0 \<noteq> Inl EmptyVolumeError"
  by (simp add: composite_reflectivity_default_def composite_reflectivity_def volume0_def)

subsection \<open>Filtering switched off\<close>

lemma get_field_other:
  "n \<noteq> m \<Longrightarrow>
   get_field (radar\<lparr>radar_fields := \<lambda>s k. if k = m then X s else radar_fields radar s k\<rparr>) sweep n =
   get_field radar sweep n"
  by (simp add: get_field_def)

lemma filter_sweep_unfiltered:
  "filter_sweep radar False rhv_value sweep = get_field radar sweep ''reflectivity''"
  by (cases "get_field radar sweep ''reflectivity''") (simp_all add: filter_sweep_def)

lemma reorder_sweep_no_rhv:
  "reorder_sweep argsort
     (radar\<lparr>radar_fields := \<lambda>s k. if k = ''cross_correlation_ratio'' then X s else radar_fields radar s k\<rparr>)
     False rhv_value sweep =
   reorder_sweep argsort radar False rhv_value sweep"
  by (simp add: reorder_sweep_def filter_sweep_unfiltered get_field_other)

lemma sweep_body_no_rhv:
  "sweep_body argsort
     (radar\<lparr>radar_fields := \<lambda>s k. if k = ''cross_correlation_ratio'' then X s else radar_fields radar s k\<rparr>)
     False rhv_value st sweep =
   sweep_body argsort radar False rhv_value st sweep"
  by (simp add: sweep_body_def reorder_sweep_no_rhv)

lemma sweep_loop_no_rhv:
  "sweep_loop argsort
     (radar\<lparr>radar_fields := \<lambda>s k. if k = ''cross_correlation_ratio'' then X s else radar_fields radar s k\<rparr>)
     False rhv_value sweeps st =
   sweep_loop argsort radar False rhv_value sweeps st"
proof (induction sweeps arbitrary: st)
  case Nil
  show ?case by simp
next
  case (Cons sweep sweeps)
  show ?case
    by (cases "sweep_body argsort radar False rhv_value st sweep")
      (simp_all add: sweep_body_no_rhv Cons.IH)
qed

text \<open>
  Claim C10. With \<open>rhv_filter\<close> false the result does not depend on what the volume
  holds under \<^verbatim>\<open>cross_correlation_ratio\<close>: replacing that field in every sweep by
  anything, also by nothing (\<open>X s = None\<close>), leaves the outcome of the call as it is,
  so a volume lacking the field completes whenever the volume having it does, with the
  same dictionary.
\<close>

theorem unfiltered_ignores_correlation:
  "composite_reflectivity argsort num2date dt_mean
     (radar\<lparr>radar_fields := \<lambda>s k. if k = ''cross_correlation_ratio'' then X s else radar_fields radar s k\<rparr>)
     False rhv_value verbose =
   composite_reflectivity argsort num2date dt_mean radar False rhv_value verbose"
  by (simp add: composite_reflectivity_def sweep_loop_no_rhv bindE_def Let_def
      split: sum.splits option.splits)

theorem unfiltered_ignores_correlation_witness:
  "composite_reflectivity argsort_stable num2date_seconds mean_seconds
     (volume1\<lparr>radar_fields :=
        \<lambda>s k. if k = ''cross_correlation_ratio'' then None else radar_fields volume1 s k\<rparr>)
     False (95 / 100) False =
   composite_reflectivity argsort_stable num2date_seconds mean_seconds volume1 False (95 / 100) False \<and>
   map_sum id (data \<circ> comp_composite_reflectivity)
     (composite_reflectivity argsort_stable num2date_seconds mean_seconds
        (volume1\<lparr>radar_fields :=
           \<lambda>s k. if k = ''cross_correlation_ratio'' then None else radar_fields volume1 s k\<rparr>)
        False (95 / 100) False) =
   Inr [[Cell 2 False], [Cell 2 False], [Cell 1 False], [Cell 1 False]]"
proof -
  have e: "map_sum id (data \<circ> comp_composite_reflectivity)
      (composite_reflectivity argsort_stable num2date_seconds mean_seconds volume1 False (95 / 100) False) =
    Inr [[Cell 2 False], [Cell 2 False], [Cell 1 False], [Cell 1 False]]"
    by code_simp
  note t = unfiltered_ignores_correlation
    [where argsort = argsort_stable and ?num2date = num2date_seconds and radar = volume1
      and X = "\<lambda>s. None" and rhv_value = "95 / 100" and verbose = False]
  from e show ?thesis
    unfolding t by simp
qed

subsection \<open>The time of the volume\<close>

text \<open>
  Whenever a dictionary is returned, its time entry is \<open>dt_mean\<close> of the decoded time
  values of all rays of the volume; the time array and its units are all that it reads.
\<close>

lemma composite_time:
  assumes "composite_reflectivity argsort num2date dt_mean radar rhv_filter rhv_value verbose = Inr out"
  shows "data (comp_time out) = dt_mean (map (num2date (time_units radar)) (time radar))"
  using assms
  by (auto simp: composite_reflectivity_def bindE_def Let_def split: sum.splits option.splits)

subsection \<open>The quality filter\<close>

lemma masked_where_Inr:
  assumes "masked_where (less_scalar dtype rho x) z = Inr zf"
  shows "map length rho = map length z"
    and "zf = map2 (map2 (\<lambda>c a. Cell (val a) ((masked c \<or> val c < dtype x) \<or> masked a))) rho z"
proof -
  have l: "map length (make_mask (less_scalar dtype rho x)) = map length rho"
    by (simp add: make_mask_def less_scalar_def comp_def)
  from assms show "map length rho = map length z"
    by (simp add: masked_where_def Let_def l split: if_splits)
  have "map2 (map2 (\<lambda>c a. Cell (val a) (c \<or> masked a))) (make_mask (less_scalar dtype rho x)) z =
        map2 (map2 (\<lambda>c a. Cell (val a) ((masked c \<or> val c < dtype x) \<or> masked a))) rho z"
    by (auto simp: make_mask_def less_scalar_def zip_map1 comp_def split_def intro!: map_cong)
  with assms show "zf = map2 (map2 (\<lambda>c a. Cell (val a) ((masked c \<or> val c < dtype x) \<or> masked a))) rho z"
    by (simp add: masked_where_def Let_def split: if_splits)
qed

lemma nth_map2_rows:
  assumes "map length rho = map length z" and "i < length z" and "j < length (z ! i)"
  shows "map2 (map2 f) rho z ! i ! j = f (rho ! i ! j) (z ! i ! j)"
proof -
  from assms(1) have n: "length rho = length z"
    by (rule map_eq_imp_length_eq)
  from assms(1) have "map length rho ! i = map length z ! i" by simp
  with n assms(2) have m: "length (rho ! i) = length (z ! i)" by simp
  from n assms(2) have "map2 (map2 f) rho z ! i = map2 f (rho ! i) (z ! i)" by simp
  with m assms(3) show ?thesis by simp
qed

lemma map_length_map2_rows:
  assumes "map length rho = map length z"
  shows "map length (map2 (map2 f) rho z) = map length z"
proof (rule nth_equalityI)
  from assms have n: "length rho = length z"
    by (rule map_eq_imp_length_eq)
  then show "length (map length (map2 (map2 f) rho z)) = length (map length z)" by simp
  fix i
  assume "i < length (map length (map2 (map2 f) rho z))"
  with n have i: "i < length z" by simp
  from assms have "map length rho ! i = map length z ! i" by simp
  with n i have "length (rho ! i) = length (z ! i)" by simp
  with n i show "map length (map2 (map2 f) rho z) ! i = map length z ! i" by simp
qed

text \<open>
  Claim C8, as amended. With filtering on, the filtered field has the shape of the
  reflectivity field and every cell keeps its stored number. A cell is marked invalid
  exactly when its correlation coefficient is itself masked or is strictly below the
  threshold, both taken in the floating-point type of the field (the threshold is
  converted to it before the comparison); every other cell is the input cell, its own
  mask bit included. With filtering off the field is what \<^verbatim>\<open>get_field\<close> returned. The
  default threshold is the 0.95 of \<open>composite_reflectivity_default\<close>.
\<close>

theorem filter_masks_low_or_masked_correlation:
  "(filter_sweep radar True rhv_value sweep = Inr zf \<longrightarrow>
      (\<exists>z rho_hv.
         get_field radar sweep ''reflectivity'' = Inr z \<and>
         get_field radar sweep ''cross_correlation_ratio'' = Inr rho_hv \<and>
         map length rho_hv = map length z \<and> map length zf = map length z \<and>
         (\<forall>i < length z. \<forall>j < length (z ! i).
            zf ! i ! j =
              (if masked (rho_hv ! i ! j) \<or> val (rho_hv ! i ! j) < field_dtype radar rhv_value
               then Cell (val (z ! i ! j)) True else z ! i ! j)))) \<and>
   filter_sweep radar False rhv_value sweep = get_field radar sweep ''reflectivity''"
proof (intro conjI impI)
  assume a: "filter_sweep radar True rhv_value sweep = Inr zf"
  then obtain z rho_hv where
    z: "get_field radar sweep ''reflectivity'' = Inr z"
    and rho: "get_field radar sweep ''cross_correlation_ratio'' = Inr rho_hv"
    and m: "masked_where (less_scalar (field_dtype radar) rho_hv rhv_value) z = Inr zf"
    by (auto simp: filter_sweep_def bindE_def split: sum.splits)
  note sh = masked_where_Inr(1) [OF m]
  note zf = masked_where_Inr(2) [OF m]
  have "\<forall>i < length z. \<forall>j < length (z ! i).
          zf ! i ! j =
            (if masked (rho_hv ! i ! j) \<or> val (rho_hv ! i ! j) < field_dtype radar rhv_value
             then Cell (val (z ! i ! j)) True else z ! i ! j)"
    by (simp add: zf nth_map2_rows [OF sh])
  moreover have "map length zf = map length z"
    unfolding zf by (rule map_length_map2_rows [OF sh])
  ultimately show "\<exists>z rho_hv.
         get_field radar sweep ''reflectivity'' = Inr z \<and>
         get_field radar sweep ''cross_correlation_ratio'' = Inr rho_hv \<and>
         map length rho_hv = map length z \<and> map length zf = map length z \<and>
         (\<forall>i < length z. \<forall>j < length (z ! i).
            zf ! i ! j =
              (if masked (rho_hv ! i ! j) \<or> val (rho_hv ! i ! j) < field_dtype radar rhv_value
               then Cell (val (z ! i ! j)) True else z ! i ! j))"
    using z rho sh by blast
next
  show "filter_sweep radar False rhv_value sweep = get_field radar sweep ''reflectivity''"
    by (cases "get_field radar sweep ''reflectivity''") (simp_all add: filter_sweep_def)
qed

theorem filter_masks_low_or_masked_correlation_witness:
  "get_field volume5 0 ''reflectivity'' = Inr [[Cell 20 False], [Cell 30 False]] \<and>
   get_field volume5 0 ''cross_correlation_ratio'' =
     Inr [[Cell (15938355 / 16777216) False], [Cell (1 / 2) False]] \<and>
   field_dtype volume5 (95 / 100) = 15938355 / 16777216 \<and>
   filter_sweep volume5 True (95 / 100) 0 = Inr [[Cell 20 False], [Cell 30 True]] \<and>
   filter_sweep volume5 False (95 / 100) 0 = Inr [[Cell 20 False], [Cell 30 False]]"
proof -
  have z: "get_field volume5 0 ''reflectivity'' = Inr [[Cell 20 False], [Cell 30 False]]"
    by code_simp
  have r: "get_field volume5 0 ''cross_correlation_ratio'' =
     Inr [[Cell (15938355 / 16777216) False], [Cell (1 / 2) False]]"
    by code_simp
  have d: "field_dtype volume5 (95 / 100) = 15938355 / 16777216"
    by (simp add: volume5_def float32_unit_def)
  note t = filter_masks_low_or_masked_correlation
    [of volume5 "95 / 100" 0 "[[Cell 20 False], [Cell 30 True]]"]
  from t have "filter_sweep volume5 False (95 / 100) 0 = get_field volume5 0 ''reflectivity''"
    by (rule conjunct2)
  with z have u: "filter_sweep volume5 False (95 / 100) 0 = Inr [[Cell 20 False], [Cell 30 False]]"
    by simp
  from z r d volume5_filter u show ?thesis by (intro conjI)
qed

text \<open>
  Claim C8 as stated fails where the correlation coefficient is masked: the number under
  the mask, 0.99, is not below 0.95, neither before nor after the conversion of the
  threshold, and the reflectivity cell is marked invalid all the same.
\<close>

theorem filter_masks_low_correlation_counterexample:
  "get_field volume3 0 ''reflectivity'' = Inr [[Cell 30 False]] \<and>
   get_field volume3 0 ''cross_correlation_ratio'' = Inr [[Cell (99 / 100) True]] \<and>
   \<not> (99 / 100 < (95 / 100 :: real)) \<and>
   \<not> (99 / 100 < field_dtype volume3 (95 / 100)) \<and>
   filter_sweep volume3 True (95 / 100) 0 = Inr [[Cell 30 True]]"
  by (simp add: volume3_def get_field_def filter_sweep_def masked_where_def less_scalar_def
      make_mask_def float32_unit_def)

subsection \<open>Reordering by azimuth\<close>






subsection \<open>What the loop maintains\<close>

lemma stack_inv_body:
  assumes inv: "stack_inv argsort radar rhv_filter rhv_value st"
    and body: "sweep_body argsort radar rhv_filter rhv_value st sweep = Inr st'"
  shows "stack_inv argsort radar rhv_filter rhv_value st'"
proof (cases "sweep = 0")
  case True
  with body sweep_body_first [of argsort radar rhv_filter rhv_value st st']
  show ?thesis
    by (auto simp: stack_inv_def)
next
  case False
  from sweep_body_later [OF body False] obtain z lon lat zs where
    r: "reorder_sweep argsort radar rhv_filter rhv_value sweep = Inr (z, lon, lat)"
    and zs: "z_stack st = Some zs"
    and sh: "list_all (\<lambda>l. map length l = map length (normalize_rays lon z)) zs"
    and st': "st' = st\<lparr>z_stack := Some (map (map (map unmask)) (zs @ [normalize_rays lon z]))\<rparr>"
    by blast
  from inv zs obtain z0 lon0 lat0 where
    r0: "reorder_sweep argsort radar rhv_filter rhv_value 0 = Inr (z0, lon0, lat0)"
    and i: "lon0 \<noteq> []" "lat0 \<noteq> []" "zs \<noteq> []"
      "list_all (\<lambda>l. map length l = map length (normalize_rays lon0 z0)) zs"
      "map (map val) (hd zs) = map (map val) (normalize_rays lon0 z0)"
      "lon_0 st = Some (lon0[length lon0 - 1 := lon0 ! 0])"
      "lat_0 st = Some (lat0[length lat0 - 1 := lat0 ! 0])"
    by (auto simp: stack_inv_def split: sum.splits)
  from i(3) obtain l ls where ls: "zs = l # ls" by (cases zs) auto
  with sh i(4) have same: "map length (normalize_rays lon z) = map length (normalize_rays lon0 z0)"
    by simp
  show ?thesis
    using r0 i sh same ls
    by (simp add: stack_inv_def st' list_all_iff hd_map)
qed



lemma sweep_loop_Cons_Inr:
  "sweep_loop argsort radar rhv_filter rhv_value (sweep # sweeps) st = Inr st' \<longleftrightarrow>
     (\<exists>st1. sweep_body argsort radar rhv_filter rhv_value st sweep = Inr st1 \<and>
            sweep_loop argsort radar rhv_filter rhv_value sweeps st1 = Inr st')"
  by (cases "sweep_body argsort radar rhv_filter rhv_value st sweep") simp_all

lemma stack_inv_loop:
  assumes "stack_inv argsort radar rhv_filter rhv_value st"
    and "sweep_loop argsort radar rhv_filter rhv_value sweeps st = Inr st'"
  shows "stack_inv argsort radar rhv_filter rhv_value st'"
  using assms
proof (induction sweeps arbitrary: st)
  case Nil
  then show ?case by simp
next
  case (Cons sweep sweeps)
  from Cons.prems(2) obtain st1 where
    b: "sweep_body argsort radar rhv_filter rhv_value st sweep = Inr st1"
    and l: "sweep_loop argsort radar rhv_filter rhv_value sweeps st1 = Inr st'"
    unfolding sweep_loop_Cons_Inr by blast
  from stack_inv_body [OF Cons.prems(1) b] l show ?case
    by (rule Cons.IH)
qed


lemma stack_inv_init:
  "stack_inv argsort radar rhv_filter rhv_value \<lparr>z_stack = None, lon_0 = None, lat_0 = None\<rparr>"
  by (simp add: stack_inv_def)

lemma composite_reflectivity_Inr:
  assumes "composite_reflectivity argsort num2date dt_mean radar rhv_filter rhv_value verbose = Inr out"
  shows "\<exists>st zs z lon lat.
           sweep_loop argsort radar rhv_filter rhv_value (sweep_number radar)
             \<lparr>z_stack = None, lon_0 = None, lat_0 = None\<rparr> = Inr st \<and>
           z_stack st = Some zs \<and> zs \<noteq> [] \<and>
           reorder_sweep argsort radar rhv_filter rhv_value 0 = Inr (z, lon, lat) \<and>
           lon \<noteq> [] \<and> lat \<noteq> [] \<and>
           list_all (\<lambda>l. map length l = map length (normalize_rays lon z)) zs \<and>
           map (map val) (hd zs) = map (map val) (normalize_rays lon z) \<and>
           data (comp_longitude out) = lon[length lon - 1 := lon ! 0] \<and>
           data (comp_latitude out) = lat[length lat - 1 := lat ! 0] \<and>
           data (comp_composite_reflectivity out) = max_axis0 zs"
proof -
  from assms obtain st zs lon0 lat0 where
    l: "sweep_loop argsort radar rhv_filter rhv_value (sweep_number radar)
          \<lparr>z_stack = None, lon_0 = None, lat_0 = None\<rparr> = Inr st"
    and zs: "z_stack st = Some zs" and lo: "lon_0 st = Some lon0" and la: "lat_0 st = Some lat0"
    and out: "data (comp_longitude out) = lon0" "data (comp_latitude out) = lat0"
      "data (comp_composite_reflectivity out) = max_axis0 zs"
    by (auto simp: composite_reflectivity_def bindE_def Let_def split: sum.splits option.splits)
  from stack_inv_loop [OF stack_inv_init l] zs lo la out l show ?thesis
    by (auto simp: stack_inv_def split: sum.splits)
qed

lemma length_max_axis0: "zs \<noteq> [] \<Longrightarrow> length (max_axis0 zs) = length (hd zs)"
  by (cases zs) (simp_all add: max_axis0_def)

lemma length_normalize_rays:
  "length (normalize_rays lon z) = (if length lon < 720 then 2 * length z else length z)"
  by (simp add: normalize_rays_def length_upsample)


lemma stack_of_layers_single: "stack_of_layers [l] = [l]"
  by (simp add: stack_of_layers_def)

lemma unmask_stack_of_layers:
  "map (map (map unmask)) (stack_of_layers ls) = map (map (map unmask)) ls"
  by (simp add: stack_of_layers_def)

lemma stack_of_layers_snoc:
  "ls \<noteq> [] \<Longrightarrow>
   stack_of_layers (ls @ [l]) = map (map (map unmask)) (stack_of_layers ls @ [l])"
  by (cases ls) (simp_all add: stack_of_layers_def)


lemma sweep_loop_stacked:
  assumes "sweep_loop argsort radar rhv_filter rhv_value sweeps st = Inr st'"
    and "(z_stack st = None \<and> cur = []) \<or>
         (\<exists>ls. cur \<noteq> [] \<and>
            map (sweep_layer argsort radar rhv_filter rhv_value) cur = map Inr ls \<and>
            z_stack st = Some (stack_of_layers ls))"
  shows "(z_stack st' = None \<and> stacked_sweeps cur sweeps = []) \<or>
         (\<exists>ls. stacked_sweeps cur sweeps \<noteq> [] \<and>
            map (sweep_layer argsort radar rhv_filter rhv_value) (stacked_sweeps cur sweeps) =
              map Inr ls \<and>
            z_stack st' = Some (stack_of_layers ls))"
  using assms
proof (induction sweeps arbitrary: st cur)
  case Nil
  then show ?case by simp
next
  case (Cons s sweeps)
  from Cons.prems(1) obtain st1 where
    b: "sweep_body argsort radar rhv_filter rhv_value st s = Inr st1"
    and l: "sweep_loop argsort radar rhv_filter rhv_value sweeps st1 = Inr st'"
    unfolding sweep_loop_Cons_Inr by blast
  let ?cur = "if s = 0 then [0] else cur @ [s]"
  have "\<exists>ls. ?cur \<noteq> [] \<and>
          map (sweep_layer argsort radar rhv_filter rhv_value) ?cur = map Inr ls \<and>
          z_stack st1 = Some (stack_of_layers ls)"
  proof (cases "s = 0")
    case True
    from sweep_body_first [OF b [unfolded True]] obtain z lon lat where
      "reorder_sweep argsort radar rhv_filter rhv_value 0 = Inr (z, lon, lat)"
      "z_stack st1 = Some [normalize_rays lon z]"
      by auto
    then have "[0::nat] \<noteq> [] \<and>
      map (sweep_layer argsort radar rhv_filter rhv_value) [0] =
        map Inr [normalize_rays lon z] \<and>
      z_stack st1 = Some (stack_of_layers [normalize_rays lon z])"
      by (simp add: sweep_layer_def stack_of_layers_single)
    then have "\<exists>ls. [0::nat] \<noteq> [] \<and>
      map (sweep_layer argsort radar rhv_filter rhv_value) [0] = map Inr ls \<and>
      z_stack st1 = Some (stack_of_layers ls)"
      by (rule exI)
    with True show ?thesis by simp
  next
    case False
    from sweep_body_later [OF b False] obtain z lon lat zs where
      r: "reorder_sweep argsort radar rhv_filter rhv_value s = Inr (z, lon, lat)"
      and zs: "z_stack st = Some zs"
      and st1: "z_stack st1 = Some (map (map (map unmask)) (zs @ [normalize_rays lon z]))"
      by auto
    from zs Cons.prems(2) obtain ls where
      ls: "cur \<noteq> []" "map (sweep_layer argsort radar rhv_filter rhv_value) cur = map Inr ls"
        "zs = stack_of_layers ls"
      by auto
    from ls(1,2) have "ls \<noteq> []" by auto
    with st1 ls(3) have
      "z_stack st1 = Some (stack_of_layers (ls @ [normalize_rays lon z]))"
      by (simp add: stack_of_layers_snoc)
    moreover from r ls(2) have
      "map (sweep_layer argsort radar rhv_filter rhv_value) (cur @ [s]) =
         map Inr (ls @ [normalize_rays lon z])"
      by (simp add: sweep_layer_def)
    ultimately have "cur @ [s] \<noteq> [] \<and>
      map (sweep_layer argsort radar rhv_filter rhv_value) (cur @ [s]) =
        map Inr (ls @ [normalize_rays lon z]) \<and>
      z_stack st1 = Some (stack_of_layers (ls @ [normalize_rays lon z]))"
      by simp
    then have "\<exists>ls. cur @ [s] \<noteq> [] \<and>
      map (sweep_layer argsort radar rhv_filter rhv_value) (cur @ [s]) = map Inr ls \<and>
      z_stack st1 = Some (stack_of_layers ls)"
      by (rule exI)
    with False show ?thesis by simp
  qed
  then have "(z_stack st1 = None \<and> ?cur = []) \<or>
         (\<exists>ls. ?cur \<noteq> [] \<and>
            map (sweep_layer argsort radar rhv_filter rhv_value) ?cur = map Inr ls \<and>
            z_stack st1 = Some (stack_of_layers ls))"
    by blast
  from Cons.IH [OF l this] show ?case by simp
qed

lemma composite_stacked:
  assumes "composite_reflectivity argsort num2date dt_mean radar rhv_filter rhv_value verbose = Inr out"
  shows "\<exists>ls. map (sweep_layer argsort radar rhv_filter rhv_value)
                (stacked_sweeps [] (sweep_number radar)) = map Inr ls \<and>
              data (comp_composite_reflectivity out) = max_axis0 (stack_of_layers ls)"
proof -
  from assms obtain st zs where
    l: "sweep_loop argsort radar rhv_filter rhv_value (sweep_number radar)
          \<lparr>z_stack = None, lon_0 = None, lat_0 = None\<rparr> = Inr st"
    and zs: "z_stack st = Some zs"
    and o: "data (comp_composite_reflectivity out) = max_axis0 zs"
    by (auto simp: composite_reflectivity_def bindE_def Let_def split: sum.splits option.splits)
  from sweep_loop_stacked [OF l, of "[]"] zs o show ?thesis
    by auto
qed




subsection \<open>The shape of the result\<close>

text \<open>
  The grids are stored before the reflectivity is upsampled: whenever a dictionary is
  returned, the longitude and the latitude grid have as many rows as sweep 0 has rays
  after reordering, \<open>n\<close>, and the composite has \<open>2n\<close> rows when \<open>n < 720\<close> and \<open>n\<close> rows
  otherwise.
\<close>

lemma grid_rows_before_upsampling:
  assumes "composite_reflectivity argsort num2date dt_mean radar rhv_filter rhv_value verbose = Inr out"
  shows "\<exists>z lon lat.
           reorder_sweep argsort radar rhv_filter rhv_value 0 = Inr (z, lon, lat) \<and>
           length (data (comp_longitude out)) = length z \<and>
           length (data (comp_latitude out)) = length z \<and>
           length (data (comp_composite_reflectivity out)) = normalized_count (length z)"
proof -
  from composite_reflectivity_Inr [OF assms] obtain zs z lon lat where
    zs: "zs \<noteq> []"
    and r: "reorder_sweep argsort radar rhv_filter rhv_value 0 = Inr (z, lon, lat)"
    and v: "map (map val) (hd zs) = map (map val) (normalize_rays lon z)"
    and o: "data (comp_longitude out) = lon[length lon - 1 := lon ! 0]"
      "data (comp_latitude out) = lat[length lat - 1 := lat ! 0]"
      "data (comp_composite_reflectivity out) = max_axis0 zs"
    by blast
  from v have "length (hd zs) = length (normalize_rays lon z)"
    by (rule map_eq_imp_length_eq)
  with zs o reorder_sweep_lengths [OF r]
  have "length (data (comp_longitude out)) = length z \<and>
        length (data (comp_latitude out)) = length z \<and>
        length (data (comp_composite_reflectivity out)) = normalized_count (length z)"
    by (simp add: length_max_axis0 length_normalize_rays normalized_count_def)
  with r show ?thesis by blast
qed

text \<open>
  Claim C2 does not hold of the code. For \<open>volume1\<close>, whose first sweep has 2 rays, the
  call returns grids of 2 rows with a composite of 4 rows; by \<open>grid_rows_before_upsampling\<close>
  the same happens for every first sweep below 720 rays, among them one of 360 rays.
\<close>

theorem grids_shorter_than_composite:
  "reorder_sweep argsort_stable volume1 True (95 / 100) 0 =
     Inr ([[Cell 2 True], [Cell 1 False]], [[2], [1]], [[4], [3]]) \<and>
   composite_reflectivity_default argsort_stable num2date_seconds mean_seconds volume1 = Inr product1 \<and>
   length (data (comp_longitude product1)) = 2 \<and>
   length (data (comp_latitude product1)) = 2 \<and>
   length (data (comp_composite_reflectivity product1)) = 4"
  using volume1_product volume1_reorder
  by (simp add: composite_reflectivity_default_def product1_def)

subsection \<open>Closing the azimuth circle\<close>

text \<open>
  Claim C7. In a returned dictionary the longitude and the latitude grid are the
  reordered grids of sweep 0 with the last row replaced by row 0, so the last row of each
  equals its first row. The overwrite acts on these two copies only. The composite is
  the reduction of the stack of the layers of the sweeps, and a layer is the reordered,
  normalized reflectivity of its sweep (\<open>sweep_layer\<close>), with every row its own; the
  first layer is the one of sweep 0.
\<close>

theorem wrap_closure:
  assumes "composite_reflectivity argsort num2date dt_mean radar rhv_filter rhv_value verbose = Inr out"
  shows "\<exists>z lon lat ls.
           reorder_sweep argsort radar rhv_filter rhv_value 0 = Inr (z, lon, lat) \<and>
           data (comp_longitude out) = lon[length lon - 1 := lon ! 0] \<and>
           data (comp_latitude out) = lat[length lat - 1 := lat ! 0] \<and>
           data (comp_longitude out) \<noteq> [] \<and>
           last (data (comp_longitude out)) = hd (data (comp_longitude out)) \<and>
           data (comp_latitude out) \<noteq> [] \<and>
           last (data (comp_latitude out)) = hd (data (comp_latitude out)) \<and>
           map (sweep_layer argsort radar rhv_filter rhv_value)
             (stacked_sweeps [] (sweep_number radar)) = map Inr ls \<and>
           data (comp_composite_reflectivity out) = max_axis0 (stack_of_layers ls) \<and>
           map (map val) (hd (stack_of_layers ls)) = map (map val) (normalize_rays lon z)"
proof -
  have closed: "g[length g - 1 := g ! 0] \<noteq> [] \<and>
      last (g[length g - 1 := g ! 0]) = hd (g[length g - 1 := g ! 0])"
    if "g \<noteq> []" for g :: grid
    using that
    by (cases "length g - 1 = 0") (simp_all add: last_list_update hd_conv_nth last_conv_nth)
  from composite_reflectivity_Inr [OF assms] obtain st zs z lon lat where
    l: "sweep_loop argsort radar rhv_filter rhv_value (sweep_number radar)
          \<lparr>z_stack = None, lon_0 = None, lat_0 = None\<rparr> = Inr st"
    and zs: "z_stack st = Some zs"
    and r: "reorder_sweep argsort radar rhv_filter rhv_value 0 = Inr (z, lon, lat)"
    and ne: "lon \<noteq> []" "lat \<noteq> []"
    and v: "map (map val) (hd zs) = map (map val) (normalize_rays lon z)"
    and o: "data (comp_longitude out) = lon[length lon - 1 := lon ! 0]"
      "data (comp_latitude out) = lat[length lat - 1 := lat ! 0]"
      "data (comp_composite_reflectivity out) = max_axis0 zs"
    by blast
  from sweep_loop_stacked [OF l, of "[]"] zs obtain ls where
    ls: "map (sweep_layer argsort radar rhv_filter rhv_value)
           (stacked_sweeps [] (sweep_number radar)) = map Inr ls"
      "zs = stack_of_layers ls"
    by auto
  from closed [OF ne(1)] closed [OF ne(2)] r v o ls show ?thesis
    by auto
qed

theorem wrap_closure_witness:
  "composite_reflectivity argsort_stable num2date_seconds mean_seconds volume1 True (95 / 100) False =
     Inr product1 \<and>
   data (comp_longitude product1) = [[2], [2]] \<and>
   last (data (comp_longitude product1)) = hd (data (comp_longitude product1)) \<and>
   data (comp_latitude product1) = [[4], [4]] \<and>
   last (data (comp_latitude product1)) = hd (data (comp_latitude product1)) \<and>
   stacked_sweeps [] (sweep_number volume1) = [0] \<and>
   sweep_layer argsort_stable volume1 True (95 / 100) 0 =
     Inr [[Cell 2 True], [Cell 2 True], [Cell 1 False], [Cell 1 False]] \<and>
   data (comp_composite_reflectivity product1) =
     max_axis0 (stack_of_layers [[[Cell 2 True], [Cell 2 True], [Cell 1 False], [Cell 1 False]]]) \<and>
   last (data (comp_composite_reflectivity product1)) \<noteq>
     hd (data (comp_composite_reflectivity product1))"
proof -
  have sw: "stacked_sweeps [] (sweep_number volume1) = [0]"
    by (simp add: volume1_def)
  have ly: "sweep_layer argsort_stable volume1 True (95 / 100) 0 =
     Inr [[Cell 2 True], [Cell 2 True], [Cell 1 False], [Cell 1 False]]"
    by code_simp
  from wrap_closure [OF volume1_product] obtain ls where
    c: "last (data (comp_longitude product1)) = hd (data (comp_longitude product1))"
      "last (data (comp_latitude product1)) = hd (data (comp_latitude product1))"
    and ls: "map (sweep_layer argsort_stable volume1 True (95 / 100))
        (stacked_sweeps [] (sweep_number volume1)) = map Inr ls"
      "data (comp_composite_reflectivity product1) = max_axis0 (stack_of_layers ls)"
    by blast
  from ls(1) sw ly have "ls = [[[Cell 2 True], [Cell 2 True], [Cell 1 False], [Cell 1 False]]]"
    by (cases ls) auto
  with ls(2) have m: "data (comp_composite_reflectivity product1) =
     max_axis0 (stack_of_layers [[[Cell 2 True], [Cell 2 True], [Cell 1 False], [Cell 1 False]]])"
    by simp
  have d: "data (comp_longitude product1) = [[2], [2]]"
    "data (comp_latitude product1) = [[4], [4]]"
    "last (data (comp_composite_reflectivity product1)) \<noteq>
      hd (data (comp_composite_reflectivity product1))"
    by (simp_all add: product1_def)
  from volume1_product d(1) c(1) d(2) c(2) sw ly m d(3) show ?thesis by (intro conjI)
qed

subsection \<open>Ray counts\<close>





subsection \<open>The masks in the stack\<close>

text \<open>
  Claim C1 does not hold of the code. With default arguments on \<open>volume2\<close>, the cell of
  sweep 0 is masked by the filter and the cell of sweep 1 is valid with 10 dBZ, so the
  maximum of the valid values is 10 (\<open>max_cells\<close> of the two cells). The call returns 50,
  valid, in every row: \<^verbatim>\<open>np.concatenate\<close> has dropped the mask of sweep 0 and the
  reduction has compared the stored numbers. By \<open>composite_stacked\<close> the masks are
  removed in this way whenever the stack holds two layers or more; a stack of one layer
  keeps its masks.
\<close>

theorem masks_lost_in_stack:
  "filter_sweep volume2 True (95 / 100) 0 = Inr [[Cell 50 True]] \<and>
   filter_sweep volume2 True (95 / 100) 1 = Inr [[Cell 10 False]] \<and>
   max_cells [Cell 50 True, Cell 10 False] = Cell 10 False \<and>
   composite_reflectivity_default argsort_stable num2date_seconds mean_seconds volume2 = Inr product2 \<and>
   data (comp_composite_reflectivity product2) = [[Cell 50 False], [Cell 50 False]]"
proof -
  have f: "filter_sweep volume2 True (95 / 100) 0 = Inr [[Cell 50 True]]"
    "filter_sweep volume2 True (95 / 100) 1 = Inr [[Cell 10 False]]"
    by code_simp+
  have m: "max_cells [Cell 50 True, Cell 10 False] = Cell 10 False"
    by (simp add: max_cells_def)
  have p: "composite_reflectivity_default argsort_stable num2date_seconds mean_seconds volume2 = Inr product2"
    using volume2_product by (simp add: composite_reflectivity_default_def)
  have d: "data (comp_composite_reflectivity product2) = [[Cell 50 False], [Cell 50 False]]"
    by (simp add: product2_def)
  from f m p d show ?thesis by (intro conjI)
qed

end
